theory Spec2Isabelle
  imports Complex_Main "HOL-Library.Multiset"
begin

section \<open>Python values and exceptions\<close>

text \<open>
  A cell of the \<open>branch_id\<close> column as \<open>pd.read_csv\<close> delivers it: an integer, a
  float, a boolean or a string, depending on what the file holds. A float cell is carried
  by its Python \<open>str\<close> form, the only thing the program ever asks of it.
\<close>

datatype pyval = PyInt int | PyFloat string | PyBool bool | PyStr string

definition digit_char :: "nat \<Rightarrow> char" where
  "digit_char n = ''0123456789'' ! n"

function str_of_nat :: "nat \<Rightarrow> string" where
  "str_of_nat n =
     (if n < 10 then [digit_char n] else str_of_nat (n div 10) @ [digit_char (n mod 10)])"
  by pat_completeness auto
termination
  by (relation "measure id") auto

definition str_of_int :: "int \<Rightarrow> string" where
  "str_of_int i = (if i < 0 then ''-'' @ str_of_nat (nat (- i)) else str_of_nat (nat i))"

text \<open>Python's \<open>str(v)\<close>, which \<open>astype(str)\<close> applies to every cell.\<close>

fun py_str :: "pyval \<Rightarrow> string" where
  "py_str (PyInt i) = str_of_int i"
| "py_str (PyFloat r) = r"
| "py_str (PyBool b) = (if b then ''True'' else ''False'')"
| "py_str (PyStr s) = s"

fun is_text :: "pyval \<Rightarrow> bool" where
  "is_text (PyStr s) = True"
| "is_text _ = False"

text \<open>
  The branch parameter of a request is a string, or Python's \<open>None\<close> when the web form
  carried no such field. \<open>str_param\<close> is its rendering inside an f-string.
\<close>

fun str_param :: "string option \<Rightarrow> string" where
  "str_param None = ''None''"
| "str_param (Some b) = b"

text \<open>
  The element-wise comparison \<open>data['branch_id'] == branch_id\<close>: a string cell equals
  an equal string; a number or a boolean never equals a string, and nothing equals
  \<open>None\<close>.
\<close>

fun cell_eq :: "pyval \<Rightarrow> string option \<Rightarrow> bool" where
  "cell_eq (PyStr s) (Some b) = (s = b)"
| "cell_eq _ _ = False"

text \<open>
  The exceptions the program raises, each with its message (\<open>KeyError\<close> with its key,
  \<open>TypeError\<close> for subscripting \<open>None\<close>).
\<close>

datatype error =
    FileNotFoundError string
  | ValueError string
  | IOError string
  | KeyError string
  | TypeError string

datatype error_class = CFileNotFoundError | CValueError | CIOError | CKeyError | CTypeError

fun class_of :: "error \<Rightarrow> error_class" where
  "class_of (FileNotFoundError m) = CFileNotFoundError"
| "class_of (ValueError m) = CValueError"
| "class_of (IOError m) = CIOError"
| "class_of (KeyError k) = CKeyError"
| "class_of (TypeError m) = CTypeError"

text \<open>\<open>str(e)\<close>, as the f-strings \<open>{e}\<close> of the handlers render an exception.\<close>

fun str_exc :: "error \<Rightarrow> string" where
  "str_exc (FileNotFoundError m) = m"
| "str_exc (ValueError m) = m"
| "str_exc (IOError m) = m"
| "str_exc (KeyError k) = [CHR 0x27] @ k @ [CHR 0x27]"
| "str_exc (TypeError m) = m"

type_synonym 'a result = "error + 'a"

section \<open>Calendar dates and the ISO week\<close>

record timestamp =
  year :: int
  month :: nat
  day :: nat

definition is_leap :: "int \<Rightarrow> bool" where
  "is_leap y = (y mod 4 = 0 \<and> (y mod 100 \<noteq> 0 \<or> y mod 400 = 0))"

definition days_before_year :: "int \<Rightarrow> int" where
  "days_before_year y = (y - 1) * 365 + (y - 1) div 4 - (y - 1) div 100 + (y - 1) div 400"

definition days_in_month :: "int \<Rightarrow> nat \<Rightarrow> int" where
  "days_in_month y m =
     (if m = 2 then (if is_leap y then 29 else 28)
      else if m = 4 \<or> m = 6 \<or> m = 9 \<or> m = 11 then 30 else 31)"

definition days_before_month :: "int \<Rightarrow> nat \<Rightarrow> int" where
  "days_before_month y m = sum_list (map (days_in_month y) [1..<m])"

definition ymd2ord :: "int \<Rightarrow> nat \<Rightarrow> nat \<Rightarrow> int" where
  "ymd2ord y m d = days_before_year y + days_before_month y m + int d"

definition isoweek1monday :: "int \<Rightarrow> int" where
  "isoweek1monday y =
     (let firstday = ymd2ord y 1 1;
          firstweekday = (firstday + 6) mod 7;
          week1monday = firstday - firstweekday
      in if firstweekday > 3 then week1monday + 7 else week1monday)"

text \<open>
  \<open>.dt.isocalendar().week\<close>: the ISO-8601 week number of a date, between 1 and 53.
\<close>

definition isocalendar_week :: "timestamp \<Rightarrow> nat" where
  "isocalendar_week t =
     (let today = ymd2ord (year t) (month t) (day t);
          wk = (today - isoweek1monday (year t)) div 7
      in if wk < 0 then nat ((today - isoweek1monday (year t - 1)) div 7 + 1)
         else if wk \<ge> 52 \<and> today \<ge> isoweek1monday (year t + 1) then 1
         else nat (wk + 1))"

section \<open>The table\<close>

text \<open>
  One row of the sales table, with the four columns the program only reads. The columns
  it writes are kept beside the rows, each present or absent as a whole: \<open>branch_id\<close>
  (rewritten by the loader; a file may lack it) and \<open>week\<close> (added by the weekly
  report). Integer columns are \<open>int64\<close>, the price is a number.
\<close>

record row =
  date :: string
  product_id :: int
  sales_amount :: int
  price :: real

record dataframe =
  branch_id :: "pyval list option"
  records :: "row list"
  week :: "nat list option"

text \<open>Boolean-mask indexing \<open>data[mask]\<close>: the rows whose mask entry is true, in order.\<close>

fun select :: "bool list \<Rightarrow> 'a list \<Rightarrow> 'a list" where
  "select (m # ms) (x # xs) = (if m then x # select ms xs else select ms xs)"
| "select _ _ = []"

definition getitem_mask :: "dataframe \<Rightarrow> bool list \<Rightarrow> dataframe" where
  "getitem_mask df m =
     \<lparr>branch_id = map_option (select m) (branch_id df),
      records = select m (records df),
      week = map_option (select m) (week df)\<rparr>"

section \<open>The world outside the program\<close>

text \<open>
  What \<open>pd.read_csv\<close> raises, each with its message: the three exceptions the loader
  of \<open>sales_analysis.py\<close> names, and any other.
\<close>

datatype read_exception =
    FileNotFound string
  | EmptyDataError string
  | ParserError string
  | OtherException string

text \<open>
  The file system and the behaviour of the dataframe library that its documentation leaves
  open:
  \<^item> \<open>path_exists\<close> is \<open>os.path.exists\<close>;
  \<^item> \<open>read_csv\<close> is \<open>pd.read_csv\<close> on a path: an exception or a table;
  \<^item> \<open>to_datetime\<close> is \<open>pd.to_datetime\<close> on one cell: a date, or the message of the
    exception raised for a text that is no date;
  \<^item> \<open>sort_values\<close> is \<open>Series.sort_values(ascending=False)\<close> on a series of
    (\<open>product_id\<close>, total) pairs, whose default algorithm is quicksort.
\<close>

record env =
  path_exists :: "string \<Rightarrow> bool"
  read_csv :: "string \<Rightarrow> read_exception + dataframe"
  to_datetime :: "string \<Rightarrow> string + timestamp"
  sort_values :: "(int \<times> int) list \<Rightarrow> (int \<times> int) list"

text \<open>
  What the library promises of \<open>sort_values(ascending=False)\<close>: the same entries, in
  non-increasing order of value. Quicksort is not stable, so nothing is promised about
  the order of entries with equal values.
\<close>

definition sort_values_spec :: "env \<Rightarrow> bool" where
  "sort_values_spec e =
     (\<forall>xs. mset (sort_values e xs) = mset xs \<and>
           sorted_wrt (\<lambda>a b. snd a \<ge> snd b) (sort_values e xs))"

section \<open>DataLoader\<close>

text \<open>The singleton's two attributes; \<open>data\<close> is \<open>None\<close> until a table is cached.\<close>

record loader =
  file_path :: string
  data :: "dataframe option"

text \<open>\<open>self.data['branch_id'] = self.data['branch_id'].astype(str)\<close> on a column.\<close>

definition astype_str :: "pyval list \<Rightarrow> pyval list" where
  "astype_str bs = map (\<lambda>c. PyStr (py_str c)) bs"

text \<open>\<open>DataLoader._load_data\<close> of \<open>sales_analysis.py\<close>.\<close>

definition load_data :: "env \<Rightarrow> loader \<Rightarrow> unit result \<times> loader" where
  "load_data e l =
     (if \<not> path_exists e (file_path l)
      then (Inl (FileNotFoundError (''The file '' @ file_path l @ '' does not exist.'')), l)
      else
        (case read_csv e (file_path l) of
           Inl (FileNotFound m) \<Rightarrow> (Inl (FileNotFoundError (''File not found: '' @ m)), l)
         | Inl (EmptyDataError m) \<Rightarrow> (Inl (ValueError ''The file is empty.''), l)
         | Inl (ParserError m) \<Rightarrow> (Inl (ValueError ''Error parsing the file.''), l)
         | Inl (OtherException m) \<Rightarrow>
             (Inl (IOError (''An unexpected error occurred while reading the file ''
                            @ file_path l @ '': '' @ m)), l)
         | Inr df \<Rightarrow>
             (let l1 = l\<lparr>data := Some df\<rparr> in
              case branch_id df of
                None \<Rightarrow>
                  (Inl (IOError (''An unexpected error occurred while reading the file ''
                                 @ file_path l @ '': '' @ str_exc (KeyError ''branch_id''))), l1)
              | Some bs \<Rightarrow>
                  (Inr (), l1\<lparr>data := Some (df\<lparr>branch_id := Some (astype_str bs)\<rparr>)\<rparr>))))"

text \<open>\<open>DataLoader._load_data\<close> of \<open>app.py\<close>: one handler for every exception.\<close>

fun str_read_exception :: "read_exception \<Rightarrow> string" where
  "str_read_exception (FileNotFound m) = m"
| "str_read_exception (EmptyDataError m) = m"
| "str_read_exception (ParserError m) = m"
| "str_read_exception (OtherException m) = m"

definition load_data_app :: "env \<Rightarrow> loader \<Rightarrow> unit result \<times> loader" where
  "load_data_app e l =
     (if \<not> path_exists e (file_path l)
      then (Inl (FileNotFoundError (''The file '' @ file_path l @ '' does not exist.'')), l)
      else
        (case read_csv e (file_path l) of
           Inl ex \<Rightarrow>
             (Inl (IOError (''An error occurred while reading the file ''
                            @ file_path l @ '': '' @ str_read_exception ex)), l)
         | Inr df \<Rightarrow>
             (let l1 = l\<lparr>data := Some df\<rparr> in
              case branch_id df of
                None \<Rightarrow>
                  (Inl (IOError (''An error occurred while reading the file ''
                                 @ file_path l @ '': '' @ str_exc (KeyError ''branch_id''))), l1)
              | Some bs \<Rightarrow>
                  (Inr (), l1\<lparr>data := Some (df\<lparr>branch_id := Some (astype_str bs)\<rparr>)\<rparr>))))"

text \<open>\<open>DataLoader.__init__\<close>: set the path, clear the cache, load.\<close>

definition init :: "env \<Rightarrow> string \<Rightarrow> unit result \<times> loader" where
  "init e path = load_data e \<lparr>file_path = path, data = None\<rparr>"

definition init_app :: "env \<Rightarrow> string \<Rightarrow> unit result \<times> loader" where
  "init_app e path = load_data_app e \<lparr>file_path = path, data = None\<rparr>"

text \<open>
  \<open>DataLoader.get_data\<close>: load when nothing is cached, then hand out the cached table
  itself (not a copy).
\<close>

definition get_data :: "env \<Rightarrow> loader \<Rightarrow> dataframe option result \<times> loader" where
  "get_data e l =
     (case data l of
        Some df \<Rightarrow> (Inr (data l), l)
      | None \<Rightarrow>
          (case load_data e l of
             (Inl err, l') \<Rightarrow> (Inl err, l')
           | (Inr u, l') \<Rightarrow> (Inr (data l'), l')))"

definition get_data_app :: "env \<Rightarrow> loader \<Rightarrow> dataframe option result \<times> loader" where
  "get_data_app e l =
     (case data l of
        Some df \<Rightarrow> (Inr (data l), l)
      | None \<Rightarrow>
          (case load_data_app e l of
             (Inl err, l') \<Rightarrow> (Inl err, l')
           | (Inr u, l') \<Rightarrow> (Inr (data l'), l')))"

section \<open>Grouping and summary statistics\<close>

text \<open>Arithmetic on an \<open>int64\<close> column wraps around.\<close>

definition int64 :: "int \<Rightarrow> int" where
  "int64 x = (x + 2 ^ 63) mod 2 ^ 64 - 2 ^ 63"

text \<open>
  \<open>groupby(key)\<close>: the groups are the distinct keys in ascending order; the group of a
  key holds the values of the rows with that key, in row order.
\<close>

definition group_keys :: "'k::linorder list \<Rightarrow> 'k list" where
  "group_keys ks = sort (remdups ks)"

definition group_of :: "'k \<Rightarrow> 'k list \<Rightarrow> 'v list \<Rightarrow> 'v list" where
  "group_of k ks vs = map snd (filter (\<lambda>p. fst p = k) (zip ks vs))"

definition groupby_sum :: "'k::linorder list \<Rightarrow> int list \<Rightarrow> ('k \<times> int) list" where
  "groupby_sum ks vs = map (\<lambda>k. (k, int64 (sum_list (group_of k ks vs)))) (group_keys ks)"

text \<open>
  \<open>describe()\<close> on a numeric series: eight labelled statistics, \<open>None\<close> standing for
  \<open>NaN\<close>. The standard deviation divides by \<open>count - ddof\<close> with the library's default
  \<open>ddof = 1\<close>; the percentiles interpolate linearly between the two nearest ranks. The
  statistics are computed in floating point by the library and in the real numbers here.
\<close>

definition ddof :: nat where
  "ddof = 1"

definition series_mean :: "real list \<Rightarrow> real option" where
  "series_mean xs = (if xs = [] then None else Some (sum_list xs / real (length xs)))"

definition series_std :: "real list \<Rightarrow> real option" where
  "series_std xs =
     (if length xs \<le> ddof then None
      else
        (let avg = sum_list xs / real (length xs);
             sqr = map (\<lambda>x. (avg - x) ^ 2) xs
         in Some (sqrt (sum_list sqr / real (length xs - ddof)))))"

definition series_min :: "real list \<Rightarrow> real option" where
  "series_min xs = (if xs = [] then None else Some (hd (sort xs)))"

definition series_max :: "real list \<Rightarrow> real option" where
  "series_max xs = (if xs = [] then None else Some (last (sort xs)))"

definition series_quantile :: "real \<Rightarrow> real list \<Rightarrow> real option" where
  "series_quantile q xs =
     (if xs = [] then None
      else
        (let s = sort xs;
             h = q * real (length xs - 1);
             lo = nat \<lfloor>h\<rfloor>;
             hi = min (lo + 1) (length xs - 1)
         in Some (s ! lo + (h - real lo) * (s ! hi - s ! lo))))"

definition describe :: "real list \<Rightarrow> (string \<times> real option) list" where
  "describe xs =
     [(''count'', Some (real (length xs))),
      (''mean'', series_mean xs),
      (''std'', series_std xs),
      (''min'', series_min xs),
      (''25%'', series_quantile (1 / 4) xs),
      (''50%'', series_quantile (1 / 2) xs),
      (''75%'', series_quantile (3 / 4) xs),
      (''max'', series_max xs)]"

definition groupby_describe ::
  "'k::linorder list \<Rightarrow> real list \<Rightarrow> ('k \<times> (string \<times> real option) list) list" where
  "groupby_describe ks vs = map (\<lambda>k. (k, describe (group_of k ks vs))) (group_keys ks)"

text \<open>
  \<open>pd.to_datetime\<close> on a column: the dates of all cells, or the exception of the first
  cell that is no date.
\<close>

fun to_datetime_col :: "env \<Rightarrow> string list \<Rightarrow> timestamp list result" where
  "to_datetime_col e [] = Inr []"
| "to_datetime_col e (s # ss) =
     (case to_datetime e s of
        Inl m \<Rightarrow> Inl (ValueError m)
      | Inr t \<Rightarrow>
          (case to_datetime_col e ss of
             Inl err \<Rightarrow> Inl err
           | Inr ts \<Rightarrow> Inr (t # ts)))"

section \<open>SalesRepository\<close>

text \<open>
  Every operation runs its body inside \<open>try\<close> and re-raises any exception as a
  \<open>ValueError\<close> whose message is the report's prefix followed by \<open>str(e)\<close>.
\<close>

definition reraise :: "string \<Rightarrow> 'a result \<Rightarrow> 'a result" where
  "reraise prefix r =
     (case r of Inl err \<Rightarrow> Inl (ValueError (prefix @ str_exc err)) | Inr x \<Rightarrow> Inr x)"

definition none_not_subscriptable :: error where
  "none_not_subscriptable = TypeError (CHR 0x27 # ''NoneType'' @ CHR 0x27 # '' object is not subscriptable'')"

text \<open>
  The body of \<open>get_monthly_sales\<close> after \<open>get_data\<close>: select the rows of the branch,
  raise when there are none.
\<close>

definition monthly_sales_of :: "dataframe option \<Rightarrow> string option \<Rightarrow> dataframe result" where
  "monthly_sales_of d b =
     (case d of
        None \<Rightarrow> Inl none_not_subscriptable
      | Some df \<Rightarrow>
          (case branch_id df of
             None \<Rightarrow> Inl (KeyError ''branch_id'')
           | Some bs \<Rightarrow>
               (let branch_data = getitem_mask df (map (\<lambda>c. cell_eq c b) bs) in
                if records branch_data = []
                then Inl (ValueError (''No data found for branch ID: '' @ str_param b))
                else Inr branch_data)))"

definition get_monthly_sales :: "env \<Rightarrow> loader \<Rightarrow> string option \<Rightarrow> dataframe result \<times> loader" where
  "get_monthly_sales e l b =
     (case get_data e l of
        (Inl err, l') \<Rightarrow> (reraise ''Error fetching monthly sales data: '' (Inl err), l')
      | (Inr d, l') \<Rightarrow> (reraise ''Error fetching monthly sales data: '' (monthly_sales_of d b), l'))"

definition get_monthly_sales_app :: "env \<Rightarrow> loader \<Rightarrow> string option \<Rightarrow> dataframe result \<times> loader" where
  "get_monthly_sales_app e l b =
     (case get_data_app e l of
        (Inl err, l') \<Rightarrow> (reraise ''Error fetching monthly sales data: '' (Inl err), l')
      | (Inr d, l') \<Rightarrow> (reraise ''Error fetching monthly sales data: '' (monthly_sales_of d b), l'))"

text \<open>\<open>get_product_price_analysis\<close>: \<open>data.groupby('product_id')['price'].describe()\<close>.\<close>

definition get_product_price_analysis ::
  "env \<Rightarrow> loader \<Rightarrow> (int \<times> (string \<times> real option) list) list result \<times> loader" where
  "get_product_price_analysis e l =
     (case get_data e l of
        (Inl err, l') \<Rightarrow> (reraise ''Error fetching product price analysis: '' (Inl err), l')
      | (Inr None, l') \<Rightarrow>
          (reraise ''Error fetching product price analysis: '' (Inl none_not_subscriptable), l')
      | (Inr (Some df), l') \<Rightarrow>
          (Inr (groupby_describe (map product_id (records df)) (map price (records df))), l'))"

definition get_product_price_analysis_app ::
  "env \<Rightarrow> loader \<Rightarrow> (int \<times> (string \<times> real option) list) list result \<times> loader" where
  "get_product_price_analysis_app e l =
     (case get_data_app e l of
        (Inl err, l') \<Rightarrow> (reraise ''Error fetching product price analysis: '' (Inl err), l')
      | (Inr None, l') \<Rightarrow>
          (reraise ''Error fetching product price analysis: '' (Inl none_not_subscriptable), l')
      | (Inr (Some df), l') \<Rightarrow>
          (Inr (groupby_describe (map product_id (records df)) (map price (records df))), l'))"

text \<open>
  \<open>get_weekly_sales\<close>: the table \<open>get_data\<close> hands out is the cached one, so the
  assignment \<open>data['week'] = ...\<close> writes the column into the loader's table.
\<close>

definition get_weekly_sales :: "env \<Rightarrow> loader \<Rightarrow> (nat \<times> int) list result \<times> loader" where
  "get_weekly_sales e l =
     (case get_data e l of
        (Inl err, l') \<Rightarrow> (reraise ''Error fetching weekly sales data: '' (Inl err), l')
      | (Inr None, l') \<Rightarrow>
          (reraise ''Error fetching weekly sales data: '' (Inl none_not_subscriptable), l')
      | (Inr (Some df), l') \<Rightarrow>
          (case to_datetime_col e (map date (records df)) of
             Inl err \<Rightarrow> (reraise ''Error fetching weekly sales data: '' (Inl err), l')
           | Inr ts \<Rightarrow>
               (let wk = map isocalendar_week ts;
                    df' = df\<lparr>week := Some wk\<rparr>
                in (Inr (groupby_sum wk (map sales_amount (records df'))),
                    l'\<lparr>data := Some df'\<rparr>))))"

definition get_weekly_sales_app :: "env \<Rightarrow> loader \<Rightarrow> (nat \<times> int) list result \<times> loader" where
  "get_weekly_sales_app e l =
     (case get_data_app e l of
        (Inl err, l') \<Rightarrow> (reraise ''Error fetching weekly sales data: '' (Inl err), l')
      | (Inr None, l') \<Rightarrow>
          (reraise ''Error fetching weekly sales data: '' (Inl none_not_subscriptable), l')
      | (Inr (Some df), l') \<Rightarrow>
          (case to_datetime_col e (map date (records df)) of
             Inl err \<Rightarrow> (reraise ''Error fetching weekly sales data: '' (Inl err), l')
           | Inr ts \<Rightarrow>
               (let wk = map isocalendar_week ts;
                    df' = df\<lparr>week := Some wk\<rparr>
                in (Inr (groupby_sum wk (map sales_amount (records df'))),
                    l'\<lparr>data := Some df'\<rparr>))))"

text \<open>
  \<open>get_product_preference\<close>:
  \<open>data.groupby('product_id')['sales_amount'].sum().sort_values(ascending=False)\<close>.
\<close>

definition get_product_preference :: "env \<Rightarrow> loader \<Rightarrow> (int \<times> int) list result \<times> loader" where
  "get_product_preference e l =
     (case get_data e l of
        (Inl err, l') \<Rightarrow> (reraise ''Error fetching product preference data: '' (Inl err), l')
      | (Inr None, l') \<Rightarrow>
          (reraise ''Error fetching product preference data: '' (Inl none_not_subscriptable), l')
      | (Inr (Some df), l') \<Rightarrow>
          (Inr (sort_values e
                  (groupby_sum (map product_id (records df)) (map sales_amount (records df)))),
           l'))"

definition get_product_preference_app :: "env \<Rightarrow> loader \<Rightarrow> (int \<times> int) list result \<times> loader" where
  "get_product_preference_app e l =
     (case get_data_app e l of
        (Inl err, l') \<Rightarrow> (reraise ''Error fetching product preference data: '' (Inl err), l')
      | (Inr None, l') \<Rightarrow>
          (reraise ''Error fetching product preference data: '' (Inl none_not_subscriptable), l')
      | (Inr (Some df), l') \<Rightarrow>
          (Inr (sort_values e
                  (groupby_sum (map product_id (records df)) (map sales_amount (records df)))),
           l'))"

text \<open>\<open>get_sales_distribution\<close>: \<open>data['sales_amount'].describe()\<close>.\<close>

definition get_sales_distribution ::
  "env \<Rightarrow> loader \<Rightarrow> (string \<times> real option) list result \<times> loader" where
  "get_sales_distribution e l =
     (case get_data e l of
        (Inl err, l') \<Rightarrow> (reraise ''Error fetching sales distribution data: '' (Inl err), l')
      | (Inr None, l') \<Rightarrow>
          (reraise ''Error fetching sales distribution data: '' (Inl none_not_subscriptable), l')
      | (Inr (Some df), l') \<Rightarrow>
          (Inr (describe (map (\<lambda>r. real_of_int (sales_amount r)) (records df))), l'))"

definition get_sales_distribution_app ::
  "env \<Rightarrow> loader \<Rightarrow> (string \<times> real option) list result \<times> loader" where
  "get_sales_distribution_app e l =
     (case get_data_app e l of
        (Inl err, l') \<Rightarrow> (reraise ''Error fetching sales distribution data: '' (Inl err), l')
      | (Inr None, l') \<Rightarrow>
          (reraise ''Error fetching sales distribution data: '' (Inl none_not_subscriptable), l')
      | (Inr (Some df), l') \<Rightarrow>
          (Inr (describe (map (\<lambda>r. real_of_int (sales_amount r)) (records df))), l'))"

section \<open>Strategies and the factory\<close>

text \<open>
  The five strategy classes; each holds the repository, and \<open>MonthlySalesAnalysis\<close> the
  branch as well. The keyword arguments of \<open>create_analysis\<close> are a dictionary from
  names to values.
\<close>

datatype strategy =
    MonthlySalesAnalysis "string option"
  | PriceAnalysis
  | WeeklySalesAnalysis
  | ProductPreferenceAnalysis
  | SalesDistributionAnalysis

definition create_analysis :: "string \<Rightarrow> (string \<rightharpoonup> string option) \<Rightarrow> strategy result" where
  "create_analysis analysis_type kwargs =
     (if analysis_type = ''monthly_sales'' then
        (case kwargs ''branch_id'' of
           None \<Rightarrow> Inl (KeyError ''branch_id'')
         | Some b \<Rightarrow> Inr (MonthlySalesAnalysis b))
      else if analysis_type = ''price'' then Inr PriceAnalysis
      else if analysis_type = ''weekly_sales'' then Inr WeeklySalesAnalysis
      else if analysis_type = ''product_preference'' then Inr ProductPreferenceAnalysis
      else if analysis_type = ''sales_distribution'' then Inr SalesDistributionAnalysis
      else Inl (ValueError ''Unknown analysis type''))"

definition create_analysis_app :: "string \<Rightarrow> (string \<rightharpoonup> string option) \<Rightarrow> strategy result" where
  "create_analysis_app analysis_type kwargs =
     (if analysis_type = ''monthly_sales'' then
        (case kwargs ''branch_id'' of
           None \<Rightarrow> Inl (KeyError ''branch_id'')
         | Some b \<Rightarrow> Inr (MonthlySalesAnalysis b))
      else if analysis_type = ''price'' then Inr PriceAnalysis
      else if analysis_type = ''weekly_sales'' then Inr WeeklySalesAnalysis
      else if analysis_type = ''product_preference'' then Inr ProductPreferenceAnalysis
      else if analysis_type = ''sales_distribution'' then Inr SalesDistributionAnalysis
      else Inl (ValueError ''Unknown analysis type''))"

text \<open>What \<open>analyze\<close> returns: the result of the repository operation of the strategy.\<close>

datatype report =
    MonthlySales dataframe
  | PriceTable "(int \<times> (string \<times> real option) list) list"
  | WeeklyTotals "(nat \<times> int) list"
  | ProductTotals "(int \<times> int) list"
  | Distribution "(string \<times> real option) list"

definition returning :: "('a \<Rightarrow> report) \<Rightarrow> 'a result \<times> loader \<Rightarrow> report result \<times> loader" where
  "returning tag p = (map_sum id tag (fst p), snd p)"

fun analyze :: "env \<Rightarrow> loader \<Rightarrow> strategy \<Rightarrow> report result \<times> loader" where
  "analyze e l (MonthlySalesAnalysis b) = returning MonthlySales (get_monthly_sales e l b)"
| "analyze e l PriceAnalysis = returning PriceTable (get_product_price_analysis e l)"
| "analyze e l WeeklySalesAnalysis = returning WeeklyTotals (get_weekly_sales e l)"
| "analyze e l ProductPreferenceAnalysis = returning ProductTotals (get_product_preference e l)"
| "analyze e l SalesDistributionAnalysis = returning Distribution (get_sales_distribution e l)"

fun analyze_app :: "env \<Rightarrow> loader \<Rightarrow> strategy \<Rightarrow> report result \<times> loader" where
  "analyze_app e l (MonthlySalesAnalysis b) = returning MonthlySales (get_monthly_sales_app e l b)"
| "analyze_app e l PriceAnalysis = returning PriceTable (get_product_price_analysis_app e l)"
| "analyze_app e l WeeklySalesAnalysis = returning WeeklyTotals (get_weekly_sales_app e l)"
| "analyze_app e l ProductPreferenceAnalysis =
     returning ProductTotals (get_product_preference_app e l)"
| "analyze_app e l SalesDistributionAnalysis =
     returning Distribution (get_sales_distribution_app e l)"

section \<open>A concrete world\<close>

text \<open>
  An instance of the outside world on which the theorems below are exercised: dates in
  the form \<open>YYYY-MM-DD\<close>, two sorting functions that both meet \<open>sort_values_spec\<close>
  (one keeps entries of equal value in their order, the other reverses them), and the
  six-row table of the repository's unit tests.
\<close>

definition digit_val :: "char \<Rightarrow> nat option" where
  "digit_val c = map_of (zip ''0123456789'' [0, 1, 2, 3, 4, 5, 6, 7, 8, 9]) c"

fun parse_digits :: "nat \<Rightarrow> string \<Rightarrow> nat option" where
  "parse_digits acc [] = Some acc"
| "parse_digits acc (c # cs) =
     (case digit_val c of None \<Rightarrow> None | Some d \<Rightarrow> parse_digits (10 * acc + d) cs)"

definition iso_to_datetime :: "string \<Rightarrow> string + timestamp" where
  "iso_to_datetime s =
     (if length s = 10 \<and> s ! 4 = CHR ''-'' \<and> s ! 7 = CHR ''-'' then
        (case (parse_digits 0 (take 4 s), parse_digits 0 (take 2 (drop 5 s)),
               parse_digits 0 (drop 8 s)) of
           (Some y, Some m, Some d) \<Rightarrow>
             (if 1 \<le> m \<and> m \<le> 12 \<and> 1 \<le> d \<and> int d \<le> days_in_month (int y) m
              then Inr \<lparr>year = int y, month = m, day = d\<rparr>
              else Inl (''Unknown datetime string format, unable to parse: '' @ s))
         | _ \<Rightarrow> Inl (''Unknown datetime string format, unable to parse: '' @ s))
      else Inl (''Unknown datetime string format, unable to parse: '' @ s))"

definition stable_descending :: "(int \<times> int) list \<Rightarrow> (int \<times> int) list" where
  "stable_descending xs = sort_key (\<lambda>p. - snd p) xs"

definition reversing_descending :: "(int \<times> int) list \<Rightarrow> (int \<times> int) list" where
  "reversing_descending xs = rev (sort_key snd xs)"

definition sample_rows :: "row list" where
  "sample_rows =
     [\<lparr>date = ''2023-01-01'', product_id = 101, sales_amount = 100, price = 10\<rparr>,
      \<lparr>date = ''2023-01-08'', product_id = 101, sales_amount = 150, price = 10\<rparr>,
      \<lparr>date = ''2023-01-15'', product_id = 102, sales_amount = 200, price = 20\<rparr>,
      \<lparr>date = ''2023-01-01'', product_id = 101, sales_amount = 120, price = 10\<rparr>,
      \<lparr>date = ''2023-01-08'', product_id = 103, sales_amount = 130, price = 15\<rparr>,
      \<lparr>date = ''2023-01-15'', product_id = 104, sales_amount = 140, price = 20\<rparr>]"

text \<open>The file as \<open>read_csv\<close> parses it: the branch column is numeric.\<close>

definition sample_file :: dataframe where
  "sample_file =
     \<lparr>branch_id = Some [PyInt 1, PyInt 1, PyInt 1, PyInt 2, PyInt 2, PyInt 2],
      records = sample_rows, week = None\<rparr>"

text \<open>The table the loader caches from it.\<close>

definition sample_table :: dataframe where
  "sample_table =
     \<lparr>branch_id = Some [PyStr ''1'', PyStr ''1'', PyStr ''1'', PyStr ''2'', PyStr ''2'', PyStr ''2''],
      records = sample_rows, week = None\<rparr>"

definition sample_env :: env where
  "sample_env =
     \<lparr>path_exists = (\<lambda>p. p = ''sales_data.csv''),
      read_csv = (\<lambda>p. Inr sample_file),
      to_datetime = iso_to_datetime,
      sort_values = stable_descending\<rparr>"

definition sample_loader :: loader where
  "sample_loader = \<lparr>file_path = ''sales_data.csv'', data = Some sample_table\<rparr>"

text \<open>The class of the exception a call raised, if it raised one.\<close>

definition raised_class :: "'a result \<times> loader \<Rightarrow> error_class option" where
  "raised_class p = (case fst p of Inl err \<Rightarrow> Some (class_of err) | Inr x \<Rightarrow> None)"

text \<open>A loader that has nothing cached and whose file does not exist in \<open>sample_env\<close>.\<close>

definition missing_loader :: loader where
  "missing_loader = \<lparr>file_path = ''missing.csv'', data = None\<rparr>"

text \<open>
  Two calls have the same outcome when they leave the same loader behind and either return
  the same value or both raise an exception of the same class.
\<close>

definition same_outcome :: "'a result \<times> loader \<Rightarrow> 'a result \<times> loader \<Rightarrow> bool" where
  "same_outcome p q =
     (snd p = snd q \<and>
      (case fst p of
         Inr x \<Rightarrow> fst q = Inr x
       | Inl err \<Rightarrow> (case fst q of Inl err' \<Rightarrow> class_of err = class_of err' | Inr y \<Rightarrow> False)))"

text \<open>Every cell of the branch column of a table, or of the cached table, is a string.\<close>

definition text_branches :: "dataframe \<Rightarrow> bool" where
  "text_branches df = (case branch_id df of None \<Rightarrow> False | Some bs \<Rightarrow> list_all is_text bs)"

definition cached_text :: "loader \<Rightarrow> bool" where
  "cached_text l = (case data l of None \<Rightarrow> False | Some df \<Rightarrow> text_branches df)"

text \<open>
  Two more files: an empty one, for which \<open>read_csv\<close> raises \<open>EmptyDataError\<close>, and
  one that parses but has no \<open>branch_id\<close> column.
\<close>

definition empty_file_env :: env where
  "empty_file_env = sample_env\<lparr>read_csv := (\<lambda>p. Inl (EmptyDataError ''No columns to parse from file''))\<rparr>"

definition headless_file :: dataframe where
  "headless_file = \<lparr>branch_id = None, records = sample_rows, week = None\<rparr>"

definition headless_env :: env where
  "headless_env = sample_env\<lparr>read_csv := (\<lambda>p. Inr headless_file)\<rparr>"



definition reversing_env :: env where
  "reversing_env = sample_env\<lparr>sort_values := reversing_descending\<rparr>"


definition sample_std_spec :: "real list \<Rightarrow> real option \<Rightarrow> bool" where
  "sample_std_spec xs s =
     (if length xs < 2 then s = None
      else (\<exists>v. s = Some v \<and> 0 \<le> v \<and>
              v ^ 2 * (real (length xs) - 1) =
                sum_list (map (\<lambda>x. (x - sum_list xs / real (length xs)) ^ 2) xs)))"



section \<open>Basic facts\<close>

lemma cell_eq_Some: "cell_eq c (Some b) = (c = PyStr b)"
  by (cases c) auto

lemma select_map_filter: "select (map P xs) xs = filter P xs"
  by (induction xs) auto

lemma length_select_map:
  "length xs = length ys \<Longrightarrow> length (select (map P xs) ys) = length (filter P xs)"
  by (induction xs ys rule: list_induct2) auto

lemma zip_select_map:
  "length xs = length ys \<Longrightarrow>
   zip (select (map P xs) xs) (select (map P xs) ys) = filter (\<lambda>p. P (fst p)) (zip xs ys)"
  by (induction xs ys rule: list_induct2) auto

lemma get_data_cached: "data l = Some df \<Longrightarrow> get_data e l = (Inr (Some df), l)"
  by (simp add: get_data_def)

lemma get_data_app_cached: "data l = Some df \<Longrightarrow> get_data_app e l = (Inr (Some df), l)"
  by (simp add: get_data_app_def)

section \<open>Monthly sales of a branch\<close>

lemma monthly_sales_of_present:
  assumes "branch_id df = Some bs" "length bs = length (records df)" "PyStr b \<in> set bs"
  shows "\<exists>r. monthly_sales_of (Some df) (Some b) = Inr r \<and>
             branch_id r = Some (filter (\<lambda>c. c = PyStr b) bs) \<and>
             zip (filter (\<lambda>c. c = PyStr b) bs) (records r) =
               filter (\<lambda>p. fst p = PyStr b) (zip bs (records df)) \<and>
             length (records r) = length (filter (\<lambda>c. c = PyStr b) bs)"
proof -
  let ?P = "\<lambda>c. c = PyStr b"
  let ?r = "getitem_mask df (map ?P bs)"
  have len: "length (records ?r) = length (filter ?P bs)"
    using assms(2) by (simp add: getitem_mask_def length_select_map)
  have "filter ?P bs \<noteq> []"
    using assms(3) by (auto simp: filter_empty_conv)
  with len have ne: "records ?r \<noteq> []" by auto
  have m: "monthly_sales_of (Some df) (Some b) = Inr ?r"
    using ne assms(1) by (simp add: monthly_sales_of_def cell_eq_Some Let_def)
  have z: "zip (filter ?P bs) (records ?r) = filter (\<lambda>p. fst p = PyStr b) (zip bs (records df))"
    using zip_select_map[OF assms(2), of ?P]
    by (simp add: getitem_mask_def select_map_filter)
  have b: "branch_id ?r = Some (filter ?P bs)"
    using assms(1) by (simp add: getitem_mask_def select_map_filter)
  show ?thesis using m z b len by simp
qed

text \<open>
  C1. When a table is cached whose branch column has one cell per row, and the branch
  string \<open>b\<close> occurs in that column, \<open>get_monthly_sales\<close> (of either module) returns a
  table and leaves the loader as it was. Paired with their branch cells, the returned rows
  are exactly the rows of the cached table whose branch cell equals the string \<open>b\<close>, in
  the order of the cached table; so there are as many of them as there are matching cells.
\<close>

theorem monthly_sales_matching_rows:
  assumes "data l = Some df" "branch_id df = Some bs" "length bs = length (records df)"
    and "PyStr b \<in> set bs"
  shows "\<exists>r. get_monthly_sales e l (Some b) = (Inr r, l) \<and>
             get_monthly_sales_app e l (Some b) = (Inr r, l) \<and>
             branch_id r = Some (filter (\<lambda>c. c = PyStr b) bs) \<and>
             zip (filter (\<lambda>c. c = PyStr b) bs) (records r) =
               filter (\<lambda>p. fst p = PyStr b) (zip bs (records df)) \<and>
             length (records r) = length (filter (\<lambda>c. c = PyStr b) bs)"
proof -
  from monthly_sales_of_present[OF assms(2,3,4)] obtain r where
    r: "monthly_sales_of (Some df) (Some b) = Inr r"
       "branch_id r = Some (filter (\<lambda>c. c = PyStr b) bs)"
       "zip (filter (\<lambda>c. c = PyStr b) bs) (records r) =
               filter (\<lambda>p. fst p = PyStr b) (zip bs (records df))"
       "length (records r) = length (filter (\<lambda>c. c = PyStr b) bs)"
    by blast
  have "get_monthly_sales e l (Some b) = (Inr r, l)"
    using r(1) by (simp add: get_monthly_sales_def get_data_cached[OF assms(1)] reraise_def)
  moreover have "get_monthly_sales_app e l (Some b) = (Inr r, l)"
    using r(1)
    by (simp add: get_monthly_sales_app_def get_data_app_cached[OF assms(1)] reraise_def)
  ultimately show ?thesis using r(2,3,4) by blast
qed

theorem monthly_sales_matching_rows_witness:
  "data sample_loader = Some sample_table \<and>
   PyStr ''1'' \<in> set [PyStr ''1'', PyStr ''1'', PyStr ''1'', PyStr ''2'', PyStr ''2'', PyStr ''2''] \<and>
   (\<exists>r. get_monthly_sales sample_env sample_loader (Some ''1'') = (Inr r, sample_loader) \<and>
        get_monthly_sales_app sample_env sample_loader (Some ''1'') = (Inr r, sample_loader) \<and>
        branch_id r = Some [PyStr ''1'', PyStr ''1'', PyStr ''1''] \<and>
        length (records r) = 3)"
proof -
  let ?bs = "[PyStr ''1'', PyStr ''1'', PyStr ''1'', PyStr ''2'', PyStr ''2'', PyStr ''2'']"
  have h1: "data sample_loader = Some sample_table" by (simp add: sample_loader_def)
  have h2: "branch_id sample_table = Some ?bs" by (simp add: sample_table_def)
  have h3: "length ?bs = length (records sample_table)"
    by (simp add: sample_table_def sample_rows_def)
  have h4: "PyStr ''1'' \<in> set ?bs" by simp
  from monthly_sales_matching_rows[OF h1 h2 h3 h4, of sample_env]
  obtain r where
    "get_monthly_sales sample_env sample_loader (Some ''1'') = (Inr r, sample_loader)"
    "get_monthly_sales_app sample_env sample_loader (Some ''1'') = (Inr r, sample_loader)"
    "branch_id r = Some (filter (\<lambda>c. c = PyStr ''1'') ?bs)"
    "length (records r) = length (filter (\<lambda>c. c = PyStr ''1'') ?bs)"
    by blast
  then show ?thesis using h1 by (intro conjI exI[of _ r]) simp_all
qed

lemma select_none: "\<forall>c\<in>set xs. \<not> P c \<Longrightarrow> select (map P xs) ys = []"
proof (induction xs arbitrary: ys)
  case Nil
  then show ?case by simp
next
  case (Cons x xs)
  then show ?case by (cases ys) auto
qed

lemma monthly_sales_of_absent:
  assumes "branch_id df = Some bs" "PyStr b \<notin> set bs"
  shows "monthly_sales_of (Some df) (Some b) =
           Inl (ValueError (''No data found for branch ID: '' @ b))"
proof -
  have "select (map (\<lambda>c. c = PyStr b) bs) (records df) = []"
    using assms(2) by (intro select_none) auto
  then show ?thesis
    using assms(1) by (simp add: monthly_sales_of_def cell_eq_Some getitem_mask_def)
qed

text \<open>
  C6 (as amended). When a table with a branch column is cached and the branch string
  \<open>b\<close> does not occur in that column, \<open>get_monthly_sales\<close> (of either module) raises
  a \<open>ValueError\<close> whose message is \<open>Error fetching monthly sales data: No data found for
  branch ID: b\<close>, and leaves the loader as it was. The class is the one every other fault
  of the operation is re-raised as; the message alone tells the absent branch apart.
\<close>

theorem monthly_sales_absent_branch:
  assumes "data l = Some df" "branch_id df = Some bs" "PyStr b \<notin> set bs"
  shows "get_monthly_sales e l (Some b) =
           (Inl (ValueError (''Error fetching monthly sales data: No data found for branch ID: '' @ b)), l)
         \<and> get_monthly_sales_app e l (Some b) =
           (Inl (ValueError (''Error fetching monthly sales data: No data found for branch ID: '' @ b)), l)"
  using monthly_sales_of_absent[OF assms(2,3)]
  by (simp add: get_monthly_sales_def get_monthly_sales_app_def get_data_cached[OF assms(1)]
      get_data_app_cached[OF assms(1)] reraise_def)

theorem monthly_sales_absent_branch_witness:
  "PyStr ''9'' \<notin> set [PyStr ''1'', PyStr ''1'', PyStr ''1'', PyStr ''2'', PyStr ''2'', PyStr ''2''] \<and>
   get_monthly_sales sample_env sample_loader (Some ''9'') =
     (Inl (ValueError ''Error fetching monthly sales data: No data found for branch ID: 9''),
      sample_loader) \<and>
   get_monthly_sales_app sample_env sample_loader (Some ''9'') =
     (Inl (ValueError ''Error fetching monthly sales data: No data found for branch ID: 9''),
      sample_loader)"
proof -
  let ?bs = "[PyStr ''1'', PyStr ''1'', PyStr ''1'', PyStr ''2'', PyStr ''2'', PyStr ''2'']"
  have h1: "data sample_loader = Some sample_table" by (simp add: sample_loader_def)
  have h2: "branch_id sample_table = Some ?bs" by (simp add: sample_table_def)
  have h3: "PyStr ''9'' \<notin> set ?bs" by simp
  from monthly_sales_absent_branch[OF h1 h2 h3, of sample_env] h3
  show ?thesis by simp
qed

text \<open>
  C6 as stated fails: the exception for an absent branch has the class \<open>ValueError\<close>,
  which is also the class raised when the operation fails for another reason (here: nothing
  is cached and the file is missing), and is not the class the loader raises for a
  missing file.
\<close>

theorem absent_branch_class_counterexample:
  "raised_class (get_monthly_sales sample_env sample_loader (Some ''9'')) = Some CValueError \<and>
   raised_class (get_monthly_sales sample_env missing_loader (Some ''1'')) = Some CValueError \<and>
   raised_class (init sample_env ''missing.csv'') = Some CFileNotFoundError \<and>
   fst (get_monthly_sales sample_env missing_loader (Some ''1'')) =
     Inl (ValueError ''Error fetching monthly sales data: The file missing.csv does not exist.'')"
  by (simp add: raised_class_def get_monthly_sales_def get_data_def load_data_def init_def
      sample_env_def sample_loader_def sample_table_def sample_rows_def missing_loader_def
      monthly_sales_of_def getitem_mask_def reraise_def)

section \<open>The factory\<close>


text \<open>
  C10. \<open>create_analysis\<close> (of either module) called with \<open>'monthly_sales'\<close> and keyword
  arguments that hold no \<open>branch_id\<close> raises \<open>KeyError('branch_id')\<close>, which is neither
  the \<open>ValueError\<close> for an unknown report nor a file-not-found error. For each of the
  other four names it returns that name's strategy whatever the keyword arguments are, and
  the strategy runs that name's repository operation. For every other name it raises
  \<open>ValueError('Unknown analysis type')\<close>.
\<close>

theorem create_analysis_cases:
  "(kwargs ''branch_id'' = None \<longrightarrow>
      create_analysis ''monthly_sales'' kwargs = Inl (KeyError ''branch_id'') \<and>
      create_analysis_app ''monthly_sales'' kwargs = Inl (KeyError ''branch_id'') \<and>
      class_of (KeyError ''branch_id'') \<noteq> class_of (ValueError ''Unknown analysis type'') \<and>
      class_of (KeyError ''branch_id'') \<noteq> CFileNotFoundError) \<and>
   create_analysis ''price'' kwargs = Inr PriceAnalysis \<and>
   create_analysis ''weekly_sales'' kwargs = Inr WeeklySalesAnalysis \<and>
   create_analysis ''product_preference'' kwargs = Inr ProductPreferenceAnalysis \<and>
   create_analysis ''sales_distribution'' kwargs = Inr SalesDistributionAnalysis \<and>
   create_analysis_app ''price'' kwargs = Inr PriceAnalysis \<and>
   create_analysis_app ''weekly_sales'' kwargs = Inr WeeklySalesAnalysis \<and>
   create_analysis_app ''product_preference'' kwargs = Inr ProductPreferenceAnalysis \<and>
   create_analysis_app ''sales_distribution'' kwargs = Inr SalesDistributionAnalysis \<and>
   analyze e l PriceAnalysis = returning PriceTable (get_product_price_analysis e l) \<and>
   analyze e l WeeklySalesAnalysis = returning WeeklyTotals (get_weekly_sales e l) \<and>
   analyze e l ProductPreferenceAnalysis = returning ProductTotals (get_product_preference e l) \<and>
   analyze e l SalesDistributionAnalysis = returning Distribution (get_sales_distribution e l) \<and>
   (t \<notin> set [''monthly_sales'', ''price'', ''weekly_sales'', ''product_preference'',
               ''sales_distribution''] \<longrightarrow>
      create_analysis t kwargs = Inl (ValueError ''Unknown analysis type'') \<and>
      create_analysis_app t kwargs = Inl (ValueError ''Unknown analysis type''))"
  by (simp add: create_analysis_def create_analysis_app_def)

theorem create_analysis_cases_witness:
  "create_analysis ''monthly_sales'' Map.empty = Inl (KeyError ''branch_id'') \<and>
   create_analysis_app ''monthly_sales'' Map.empty = Inl (KeyError ''branch_id'') \<and>
   create_analysis ''price'' Map.empty = Inr PriceAnalysis \<and>
   create_analysis ''yearly_sales'' Map.empty = Inl (ValueError ''Unknown analysis type'') \<and>
   create_analysis_app ''yearly_sales'' Map.empty = Inl (ValueError ''Unknown analysis type'')"
  using create_analysis_cases[of Map.empty sample_env sample_loader "''yearly_sales''"]
  by simp

section \<open>The two modules\<close>


lemma load_data_agree:
  "(\<exists>err err' l'. load_data e l = (Inl err, l') \<and> load_data_app e l = (Inl err', l')) \<or>
   (\<exists>l'. load_data e l = (Inr (), l') \<and> load_data_app e l = (Inr (), l'))"
  by (simp add: load_data_def load_data_app_def Let_def
      split: sum.splits read_exception.splits option.splits)

lemma get_data_agree:
  "(\<exists>err err' l'. get_data e l = (Inl err, l') \<and> get_data_app e l = (Inl err', l')) \<or>
   (\<exists>d l'. get_data e l = (Inr d, l') \<and> get_data_app e l = (Inr d, l'))"
proof (cases "data l")
  case None
  with load_data_agree[of e l] show ?thesis
    by (auto simp: get_data_def get_data_app_def)
next
  case (Some df)
  then show ?thesis by (simp add: get_data_def get_data_app_def)
qed

lemma get_data_cases:
  obtains (raises) err err' l' where "get_data e l = (Inl err, l')" "get_data_app e l = (Inl err', l')"
  | (returns) d l' where "get_data e l = (Inr d, l')" "get_data_app e l = (Inr d, l')"
  using get_data_agree[of e l] by blast

lemma same_monthly: "same_outcome (get_monthly_sales e l b) (get_monthly_sales_app e l b)"
  by (cases e l rule: get_data_cases)
     (simp_all add: get_monthly_sales_def get_monthly_sales_app_def same_outcome_def reraise_def
       split: sum.splits)

lemma same_price:
  "same_outcome (get_product_price_analysis e l) (get_product_price_analysis_app e l)"
  by (cases e l rule: get_data_cases)
     (simp_all add: get_product_price_analysis_def get_product_price_analysis_app_def
       same_outcome_def reraise_def split: sum.splits option.splits)

lemma same_weekly: "same_outcome (get_weekly_sales e l) (get_weekly_sales_app e l)"
  by (cases e l rule: get_data_cases)
     (simp_all add: get_weekly_sales_def get_weekly_sales_app_def same_outcome_def reraise_def
       Let_def split: sum.splits option.splits)

lemma same_preference:
  "same_outcome (get_product_preference e l) (get_product_preference_app e l)"
  by (cases e l rule: get_data_cases)
     (simp_all add: get_product_preference_def get_product_preference_app_def
       same_outcome_def reraise_def split: sum.splits option.splits)

lemma same_distribution:
  "same_outcome (get_sales_distribution e l) (get_sales_distribution_app e l)"
  by (cases e l rule: get_data_cases)
     (simp_all add: get_sales_distribution_def get_sales_distribution_app_def
       same_outcome_def reraise_def split: sum.splits option.splits)

lemma get_data_app_eq_cached: "data l \<noteq> None \<Longrightarrow> get_data_app e l = get_data e l"
  by (auto simp: get_data_def get_data_app_def)

text \<open>
  C9. On a loader that has a table cached, each of the five operations of \<open>app.py\<close>
  equals the operation of the same name of \<open>sales_analysis.py\<close>: the same value or the
  same exception, and the same loader afterwards, for every table and every branch
  parameter. On any loader at all (also one with nothing cached, where the operation first
  loads the file), the two have the same outcome: the same loader afterwards, and either
  the same value or exceptions of the same class.
\<close>

theorem modules_agree:
  "(data l \<noteq> None \<longrightarrow>
      get_monthly_sales_app e l b = get_monthly_sales e l b \<and>
      get_product_price_analysis_app e l = get_product_price_analysis e l \<and>
      get_weekly_sales_app e l = get_weekly_sales e l \<and>
      get_product_preference_app e l = get_product_preference e l \<and>
      get_sales_distribution_app e l = get_sales_distribution e l) \<and>
   same_outcome (get_monthly_sales e l b) (get_monthly_sales_app e l b) \<and>
   same_outcome (get_product_price_analysis e l) (get_product_price_analysis_app e l) \<and>
   same_outcome (get_weekly_sales e l) (get_weekly_sales_app e l) \<and>
   same_outcome (get_product_preference e l) (get_product_preference_app e l) \<and>
   same_outcome (get_sales_distribution e l) (get_sales_distribution_app e l)"
proof -
  have "data l \<noteq> None \<longrightarrow>
      get_monthly_sales_app e l b = get_monthly_sales e l b \<and>
      get_product_price_analysis_app e l = get_product_price_analysis e l \<and>
      get_weekly_sales_app e l = get_weekly_sales e l \<and>
      get_product_preference_app e l = get_product_preference e l \<and>
      get_sales_distribution_app e l = get_sales_distribution e l"
    by (simp add: get_monthly_sales_def get_monthly_sales_app_def
        get_product_price_analysis_def get_product_price_analysis_app_def
        get_weekly_sales_def get_weekly_sales_app_def
        get_product_preference_def get_product_preference_app_def
        get_sales_distribution_def get_sales_distribution_app_def get_data_app_eq_cached)
  then show ?thesis
    using same_monthly same_price same_weekly same_preference same_distribution by blast
qed

theorem modules_agree_witness:
  "data sample_loader \<noteq> None \<and>
   get_monthly_sales_app sample_env sample_loader (Some ''1'') =
     get_monthly_sales sample_env sample_loader (Some ''1'') \<and>
   get_product_price_analysis_app sample_env sample_loader =
     get_product_price_analysis sample_env sample_loader \<and>
   get_weekly_sales_app sample_env sample_loader = get_weekly_sales sample_env sample_loader \<and>
   get_product_preference_app sample_env sample_loader =
     get_product_preference sample_env sample_loader \<and>
   get_sales_distribution_app sample_env sample_loader =
     get_sales_distribution sample_env sample_loader \<and>
   raised_class (get_weekly_sales sample_env missing_loader) = Some CValueError \<and>
   raised_class (get_weekly_sales_app sample_env missing_loader) = Some CValueError"
proof -
  have h: "data sample_loader \<noteq> None" by (simp add: sample_loader_def)
  have r: "raised_class (get_weekly_sales sample_env missing_loader) = Some CValueError"
    by (simp add: raised_class_def get_weekly_sales_def get_data_def load_data_def
        sample_env_def missing_loader_def reraise_def)
  have "same_outcome (get_weekly_sales sample_env missing_loader)
          (get_weekly_sales_app sample_env missing_loader)"
    using modules_agree[of missing_loader sample_env] by blast
  with r have "raised_class (get_weekly_sales_app sample_env missing_loader) = Some CValueError"
    by (auto simp: same_outcome_def raised_class_def split: sum.splits)
  with r h modules_agree[of sample_loader sample_env "Some ''1''"] show ?thesis by blast
qed

section \<open>What the reports do to the cached table\<close>


lemma weekly_sales_state:
  assumes "data l = Some df"
  shows "snd (get_weekly_sales e l) =
           (case to_datetime_col e (map date (records df)) of
              Inl err \<Rightarrow> l
            | Inr ts \<Rightarrow> l\<lparr>data := Some (df\<lparr>week := Some (map isocalendar_week ts)\<rparr>)\<rparr>)"
    and "snd (get_weekly_sales_app e l) = snd (get_weekly_sales e l)"
  by (simp_all add: get_weekly_sales_def get_weekly_sales_app_def get_data_cached[OF assms]
      get_data_app_cached[OF assms] Let_def split: sum.splits)

lemma reports_keep_loader:
  assumes "data l = Some df"
  shows "snd (get_monthly_sales e l b) = l" "snd (get_product_price_analysis e l) = l"
    "snd (get_product_preference e l) = l" "snd (get_sales_distribution e l) = l"
    "snd (get_monthly_sales_app e l b) = l" "snd (get_product_price_analysis_app e l) = l"
    "snd (get_product_preference_app e l) = l" "snd (get_sales_distribution_app e l) = l"
  by (simp_all add: get_monthly_sales_def get_product_price_analysis_def
      get_product_preference_def get_sales_distribution_def get_data_cached[OF assms]
      get_monthly_sales_app_def get_product_price_analysis_app_def
      get_product_preference_app_def get_sales_distribution_app_def
      get_data_app_cached[OF assms])

text \<open>
  C7 (as amended). On a loader that has a table cached, four of the five operations
  (monthly sales, price analysis, product preference, sales distribution; of either
  module) leave the loader, and so the cached table, exactly as it was. \<open>get_weekly_sales\<close>
  leaves it as it was when a date does not parse; otherwise it stores the derived week
  numbers as the column \<open>week\<close> of the cached table, where they stay for later calls, and
  changes nothing else: the rows, the branch column and the file path are as before.
\<close>

theorem reports_frame:
  assumes "data l = Some df"
  shows "snd (get_monthly_sales e l b) = l \<and>
         snd (get_product_price_analysis e l) = l \<and>
         snd (get_product_preference e l) = l \<and>
         snd (get_sales_distribution e l) = l \<and>
         snd (get_monthly_sales_app e l b) = l \<and>
         snd (get_product_price_analysis_app e l) = l \<and>
         snd (get_product_preference_app e l) = l \<and>
         snd (get_sales_distribution_app e l) = l \<and>
         snd (get_weekly_sales e l) =
           (case to_datetime_col e (map date (records df)) of
              Inl err \<Rightarrow> l
            | Inr ts \<Rightarrow> l\<lparr>data := Some (df\<lparr>week := Some (map isocalendar_week ts)\<rparr>)\<rparr>) \<and>
         snd (get_weekly_sales_app e l) = snd (get_weekly_sales e l) \<and>
         file_path (snd (get_weekly_sales e l)) = file_path l \<and>
         map_option records (data (snd (get_weekly_sales e l))) = Some (records df) \<and>
         map_option branch_id (data (snd (get_weekly_sales e l))) = Some (branch_id df)"
proof -
  note four = reports_keep_loader[OF assms]
  note w = weekly_sales_state[OF assms, of e]
  have rest: "file_path (snd (get_weekly_sales e l)) = file_path l"
    "map_option records (data (snd (get_weekly_sales e l))) = Some (records df)"
    "map_option branch_id (data (snd (get_weekly_sales e l))) = Some (branch_id df)"
    using assms by (simp_all add: w(1) split: sum.splits)
  show ?thesis using four w rest by simp
qed

theorem reports_frame_witness:
  "data sample_loader = Some sample_table \<and>
   snd (get_monthly_sales sample_env sample_loader (Some ''1'')) = sample_loader \<and>
   snd (get_product_price_analysis sample_env sample_loader) = sample_loader \<and>
   snd (get_product_preference sample_env sample_loader) = sample_loader \<and>
   snd (get_sales_distribution sample_env sample_loader) = sample_loader \<and>
   map_option records (data (snd (get_weekly_sales sample_env sample_loader))) =
     Some (records sample_table)"
proof -
  have h: "data sample_loader = Some sample_table" by (simp add: sample_loader_def)
  from reports_frame[OF h, of sample_env "Some ''1''"] h show ?thesis by blast
qed

text \<open>
  C7 as stated fails: after \<open>get_weekly_sales\<close> the cached table carries a \<open>week\<close> column
  that it did not have before, and a later \<open>get_monthly_sales\<close> returns rows with that
  column.
\<close>

theorem weekly_sales_mutates_cache_counterexample:
  "week sample_table = None \<and>
   data (snd (get_weekly_sales sample_env sample_loader)) =
     Some (sample_table\<lparr>week := Some [52, 1, 2, 52, 1, 2]\<rparr>) \<and>
   snd (get_weekly_sales sample_env sample_loader) \<noteq> sample_loader \<and>
   map_sum id week (fst (get_monthly_sales sample_env sample_loader (Some ''1''))) = Inr None \<and>
   map_sum id week
     (fst (get_monthly_sales sample_env (snd (get_weekly_sales sample_env sample_loader))
            (Some ''1''))) = Inr (Some [52, 1, 2])"
  by code_simp

section \<open>The branch column is text\<close>


lemma astype_str_text: "list_all is_text (astype_str bs)"
  by (simp add: astype_str_def list_all_iff)

lemma load_data_success:
  assumes "load_data e l0 = (Inr (), l)"
  shows "\<exists>raw bs. read_csv e (file_path l0) = Inr raw \<and> branch_id raw = Some bs \<and>
           l = l0\<lparr>data := Some (raw\<lparr>branch_id := Some (astype_str bs)\<rparr>)\<rparr>"
  using assms
  by (auto simp: load_data_def Let_def
      split: if_splits sum.splits read_exception.splits option.splits)

lemma load_data_app_success:
  assumes "load_data_app e l0 = (Inr (), l)"
  shows "\<exists>raw bs. read_csv e (file_path l0) = Inr raw \<and> branch_id raw = Some bs \<and>
           l = l0\<lparr>data := Some (raw\<lparr>branch_id := Some (astype_str bs)\<rparr>)\<rparr>"
  using assms
  by (auto simp: load_data_app_def Let_def
      split: if_splits sum.splits read_exception.splits option.splits)

lemma cached_text_after_load: "load_data e l0 = (Inr (), l) \<Longrightarrow> cached_text l"
  by (drule load_data_success) (auto simp: cached_text_def text_branches_def astype_str_text)

lemma cached_text_after_load_app: "load_data_app e l0 = (Inr (), l) \<Longrightarrow> cached_text l"
  by (drule load_data_app_success) (auto simp: cached_text_def text_branches_def astype_str_text)

lemma cached_textD: "cached_text l \<Longrightarrow> \<exists>df bs. data l = Some df \<and> branch_id df = Some bs \<and> list_all is_text bs"
  by (auto simp: cached_text_def text_branches_def split: option.splits)

lemma cached_text_weekly: "cached_text l \<Longrightarrow> cached_text (snd (get_weekly_sales e l))"
proof -
  assume c: "cached_text l"
  then obtain df bs where d: "data l = Some df" "branch_id df = Some bs" "list_all is_text bs"
    using cached_textD by blast
  show ?thesis
    using d by (simp add: weekly_sales_state(1)[OF d(1)] cached_text_def text_branches_def
        split: sum.splits)
qed

lemma is_text_cell_eq: "is_text c \<Longrightarrow> cell_eq c (Some b) = (py_str c = b)"
  by (cases c) auto

lemma list_all_select: "list_all P xs \<Longrightarrow> list_all P (select m xs)"
  by (induction m xs rule: select.induct) auto

lemma monthly_sales_of_text:
  "text_branches df \<Longrightarrow> monthly_sales_of (Some df) b = Inr r \<Longrightarrow> text_branches r"
  by (auto simp: monthly_sales_of_def text_branches_def getitem_mask_def Let_def list_all_select
      split: option.splits if_splits)

text \<open>
  C8. After a successful load (by either module's loader) a table is cached whose branch
  column is the \<open>str\<close> form of the column read from the file, so every cell of it is a
  string whatever the file held. Every report operation keeps it so, the table that
  \<open>get_monthly_sales\<close> returns has a branch column of strings as well, and on such a
  column the comparison with a string parameter is the comparison of strings.
\<close>

theorem branch_id_is_text:
  "(load_data e l0 = (Inr (), l) \<or> load_data_app e l0 = (Inr (), l) \<longrightarrow>
      cached_text l \<and>
      (\<exists>raw bs. read_csv e (file_path l0) = Inr raw \<and> branch_id raw = Some bs \<and>
         map_option branch_id (data l) = Some (Some (map (\<lambda>c. PyStr (py_str c)) bs)))) \<and>
   (cached_text l \<longrightarrow>
      cached_text (snd (get_monthly_sales e l b)) \<and>
      cached_text (snd (get_product_price_analysis e l)) \<and>
      cached_text (snd (get_weekly_sales e l)) \<and>
      cached_text (snd (get_product_preference e l)) \<and>
      cached_text (snd (get_sales_distribution e l)) \<and>
      cached_text (snd (get_monthly_sales_app e l b)) \<and>
      cached_text (snd (get_product_price_analysis_app e l)) \<and>
      cached_text (snd (get_weekly_sales_app e l)) \<and>
      cached_text (snd (get_product_preference_app e l)) \<and>
      cached_text (snd (get_sales_distribution_app e l)) \<and>
      (\<forall>r. fst (get_monthly_sales e l b) = Inr r \<longrightarrow> text_branches r)) \<and>
   (list_all is_text cs \<longrightarrow>
      map (\<lambda>c. cell_eq c (Some s)) cs = map (\<lambda>c. py_str c = s) cs)"
proof (intro conjI impI)
  assume "load_data e l0 = (Inr (), l) \<or> load_data_app e l0 = (Inr (), l)"
  then show "cached_text l"
    using cached_text_after_load cached_text_after_load_app by blast
next
  assume "load_data e l0 = (Inr (), l) \<or> load_data_app e l0 = (Inr (), l)"
  then obtain raw bs where "read_csv e (file_path l0) = Inr raw" "branch_id raw = Some bs"
    "l = l0\<lparr>data := Some (raw\<lparr>branch_id := Some (astype_str bs)\<rparr>)\<rparr>"
    using load_data_success load_data_app_success by blast
  then show "\<exists>raw bs. read_csv e (file_path l0) = Inr raw \<and> branch_id raw = Some bs \<and>
         map_option branch_id (data l) = Some (Some (map (\<lambda>c. PyStr (py_str c)) bs))"
    by (simp add: astype_str_def)
next
  assume c: "cached_text l"
  then obtain df bs where d: "data l = Some df" "branch_id df = Some bs" "list_all is_text bs"
    using cached_textD by blast
  note f = reports_keep_loader[OF d(1)]
  show "cached_text (snd (get_monthly_sales e l b))" using f c by simp
  show "cached_text (snd (get_product_price_analysis e l))" using f c by simp
  show "cached_text (snd (get_product_preference e l))" using f c by simp
  show "cached_text (snd (get_sales_distribution e l))" using f c by simp
  show "cached_text (snd (get_monthly_sales_app e l b))" using f c by simp
  show "cached_text (snd (get_product_price_analysis_app e l))" using f c by simp
  show "cached_text (snd (get_product_preference_app e l))" using f c by simp
  show "cached_text (snd (get_sales_distribution_app e l))" using f c by simp
  show w: "cached_text (snd (get_weekly_sales e l))" using cached_text_weekly[OF c] .
  show "cached_text (snd (get_weekly_sales_app e l))"
    using w weekly_sales_state(2)[OF d(1)] by simp
  show "\<forall>r. fst (get_monthly_sales e l b) = Inr r \<longrightarrow> text_branches r"
  proof (intro allI impI)
    fix r assume "fst (get_monthly_sales e l b) = Inr r"
    then have "monthly_sales_of (Some df) b = Inr r"
      by (simp add: get_monthly_sales_def get_data_cached[OF d(1)] reraise_def
          split: sum.splits)
    moreover have "text_branches df" using d by (simp add: text_branches_def)
    ultimately show "text_branches r" by (rule monthly_sales_of_text[rotated])
  qed
next
  assume "list_all is_text cs"
  then show "map (\<lambda>c. cell_eq c (Some s)) cs = map (\<lambda>c. py_str c = s) cs"
    by (induction cs) (auto simp: is_text_cell_eq)
qed

theorem branch_id_is_text_witness:
  "load_data sample_env \<lparr>file_path = ''sales_data.csv'', data = None\<rparr> = (Inr (), sample_loader) \<and>
   cached_text sample_loader \<and>
   cached_text (snd (get_weekly_sales sample_env sample_loader)) \<and>
   cached_text (snd (get_monthly_sales sample_env sample_loader (Some ''1''))) \<and>
   list_all is_text [PyStr ''1'', PyStr ''2''] \<and>
   map (\<lambda>c. cell_eq c (Some ''1'')) [PyStr ''1'', PyStr ''2''] = [True, False]"
proof -
  have h: "load_data sample_env \<lparr>file_path = ''sales_data.csv'', data = None\<rparr> =
             (Inr (), sample_loader)"
    by (simp add: load_data_def sample_env_def sample_file_def sample_loader_def
        sample_table_def astype_str_def str_of_int_def digit_char_def)
  have t: "list_all is_text [PyStr ''1'', PyStr ''2'']" by simp
  note inst = branch_id_is_text[of sample_env "\<lparr>file_path = ''sales_data.csv'', data = None\<rparr>"
      sample_loader "Some ''1''" "[PyStr ''1'', PyStr ''2'']" "''1''"]
  from inst h have c: "cached_text sample_loader" by blast
  with inst have "cached_text (snd (get_weekly_sales sample_env sample_loader))"
    "cached_text (snd (get_monthly_sales sample_env sample_loader (Some ''1'')))"
    by blast+
  moreover from inst t have "map (\<lambda>c. cell_eq c (Some ''1'')) [PyStr ''1'', PyStr ''2''] =
      map (\<lambda>c. py_str c = ''1'') [PyStr ''1'', PyStr ''2'']" by blast
  ultimately show ?thesis using h c t by simp
qed

section \<open>Failures of the loader\<close>


lemma load_data_absent:
  "\<not> path_exists e (file_path l0) \<Longrightarrow>
   load_data e l0 = (Inl (FileNotFoundError (''The file '' @ file_path l0 @ '' does not exist.'')), l0)"
  "\<not> path_exists e (file_path l0) \<Longrightarrow>
   load_data_app e l0 = (Inl (FileNotFoundError (''The file '' @ file_path l0 @ '' does not exist.'')), l0)"
  by (simp_all add: load_data_def load_data_app_def)

lemma load_data_read_fails:
  assumes "path_exists e (file_path l0)" "read_csv e (file_path l0) = Inl ex"
  shows "load_data e l0 =
           (Inl (case ex of
                   FileNotFound m \<Rightarrow> FileNotFoundError (''File not found: '' @ m)
                 | EmptyDataError m \<Rightarrow> ValueError ''The file is empty.''
                 | ParserError m \<Rightarrow> ValueError ''Error parsing the file.''
                 | OtherException m \<Rightarrow>
                     IOError (''An unexpected error occurred while reading the file ''
                              @ file_path l0 @ '': '' @ m)), l0)"
    and "load_data_app e l0 =
           (Inl (IOError (''An error occurred while reading the file ''
                          @ file_path l0 @ '': '' @ str_read_exception ex)), l0)"
  using assms by (simp_all add: load_data_def load_data_app_def split: read_exception.splits)

lemma load_data_not_found_iff:
  "raised_class (load_data e l0) = Some CFileNotFoundError \<longleftrightarrow>
     \<not> path_exists e (file_path l0) \<or> (\<exists>m. read_csv e (file_path l0) = Inl (FileNotFound m))"
  by (auto simp: raised_class_def load_data_def Let_def
      split: sum.splits read_exception.splits option.splits)

lemma load_data_app_not_found_iff:
  "raised_class (load_data_app e l0) = Some CFileNotFoundError \<longleftrightarrow>
     \<not> path_exists e (file_path l0)"
  by (auto simp: raised_class_def load_data_app_def Let_def
      split: sum.splits read_exception.splits option.splits)

text \<open>
  C5 (as amended). \<open>_load_data\<close> raises \<open>FileNotFoundError\<close> when the path does not
  exist, before anything is read. When the path exists and \<open>read_csv\<close> raises, the loader
  of \<open>sales_analysis.py\<close> raises \<open>FileNotFoundError\<close> for a file-not-found exception,
  \<open>ValueError\<close> for an empty file and for a parse error, and \<open>IOError\<close> for any other
  exception; the loader of \<open>app.py\<close> raises \<open>IOError\<close> for all of them. So
  \<open>FileNotFoundError\<close> is raised by \<open>sales_analysis.py\<close> exactly when the path does
  not exist or \<open>read_csv\<close> itself reports the file as not found, and by \<open>app.py\<close> exactly
  when the path does not exist. Whenever the existence check or \<open>read_csv\<close> fails, the
  loader is left as it was: nothing is cached.
\<close>

theorem load_data_failures:
  "(\<not> path_exists e (file_path l0) \<longrightarrow>
      load_data e l0 =
        (Inl (FileNotFoundError (''The file '' @ file_path l0 @ '' does not exist.'')), l0) \<and>
      load_data_app e l0 =
        (Inl (FileNotFoundError (''The file '' @ file_path l0 @ '' does not exist.'')), l0)) \<and>
   (path_exists e (file_path l0) \<and> read_csv e (file_path l0) = Inl ex \<longrightarrow>
      load_data e l0 =
        (Inl (case ex of
                FileNotFound m \<Rightarrow> FileNotFoundError (''File not found: '' @ m)
              | EmptyDataError m \<Rightarrow> ValueError ''The file is empty.''
              | ParserError m \<Rightarrow> ValueError ''Error parsing the file.''
              | OtherException m \<Rightarrow>
                  IOError (''An unexpected error occurred while reading the file ''
                           @ file_path l0 @ '': '' @ m)), l0) \<and>
      load_data_app e l0 =
        (Inl (IOError (''An error occurred while reading the file ''
                       @ file_path l0 @ '': '' @ str_read_exception ex)), l0)) \<and>
   (raised_class (load_data e l0) = Some CFileNotFoundError \<longleftrightarrow>
      \<not> path_exists e (file_path l0) \<or>
      (\<exists>m. read_csv e (file_path l0) = Inl (FileNotFound m))) \<and>
   (raised_class (load_data_app e l0) = Some CFileNotFoundError \<longleftrightarrow>
      \<not> path_exists e (file_path l0)) \<and>
   (\<not> path_exists e (file_path l0) \<or> isl (read_csv e (file_path l0)) \<longrightarrow>
      snd (load_data e l0) = l0 \<and> snd (load_data_app e l0) = l0 \<and>
      data (snd (init e (file_path l0))) = None \<and>
      data (snd (init_app e (file_path l0))) = None)"
proof (intro conjI impI)
  assume "\<not> path_exists e (file_path l0) \<or> isl (read_csv e (file_path l0))"
  then have *: "\<And>l. file_path l = file_path l0 \<Longrightarrow>
      snd (load_data e l) = l \<and> snd (load_data_app e l) = l"
    by (auto simp: load_data_def load_data_app_def isl_def split: read_exception.splits)
  from * show "snd (load_data e l0) = l0" "snd (load_data_app e l0) = l0" by simp_all
  from *[of "\<lparr>file_path = file_path l0, data = None\<rparr>"]
  show "data (snd (init e (file_path l0))) = None"
    "data (snd (init_app e (file_path l0))) = None"
    by (simp_all add: init_def init_app_def)
qed (use load_data_absent load_data_read_fails load_data_not_found_iff
      load_data_app_not_found_iff in \<open>simp_all\<close>)

theorem load_data_failures_witness:
  "init sample_env ''missing.csv'' =
     (Inl (FileNotFoundError ''The file missing.csv does not exist.''), missing_loader) \<and>
   init_app sample_env ''missing.csv'' =
     (Inl (FileNotFoundError ''The file missing.csv does not exist.''), missing_loader) \<and>
   init empty_file_env ''sales_data.csv'' =
     (Inl (ValueError ''The file is empty.''), \<lparr>file_path = ''sales_data.csv'', data = None\<rparr>) \<and>
   init_app empty_file_env ''sales_data.csv'' =
     (Inl (IOError
        ''An error occurred while reading the file sales_data.csv: No columns to parse from file''),
      \<lparr>file_path = ''sales_data.csv'', data = None\<rparr>)"
proof -
  have a: "\<not> path_exists sample_env (file_path missing_loader)"
    by (simp add: sample_env_def missing_loader_def)
  let ?l = "\<lparr>file_path = ''sales_data.csv'', data = None\<rparr>"
  have b: "path_exists empty_file_env (file_path ?l) \<and>
           read_csv empty_file_env (file_path ?l) =
             Inl (EmptyDataError ''No columns to parse from file'')"
    by (simp add: empty_file_env_def sample_env_def)
  from load_data_failures[of sample_env missing_loader] a
  have 1: "load_data sample_env missing_loader =
      (Inl (FileNotFoundError (''The file '' @ file_path missing_loader @ '' does not exist.'')),
       missing_loader)"
    "load_data_app sample_env missing_loader =
      (Inl (FileNotFoundError (''The file '' @ file_path missing_loader @ '' does not exist.'')),
       missing_loader)" by blast+
  from load_data_failures[of empty_file_env ?l
      "EmptyDataError ''No columns to parse from file''"] b
  have 2: "load_data empty_file_env ?l = (Inl (ValueError ''The file is empty.''), ?l)"
    "load_data_app empty_file_env ?l =
       (Inl (IOError (''An error occurred while reading the file '' @ file_path ?l @ '': ''
          @ str_read_exception (EmptyDataError ''No columns to parse from file''))), ?l)"
    by simp_all
  show ?thesis using 1 2 by (simp add: init_def init_app_def missing_loader_def)
qed

text \<open>
  C5 as stated fails in two ways. For an empty file the loader of \<open>app.py\<close> raises
  \<open>IOError\<close>, not the parse error. And when the file parses but has no \<open>branch_id\<close>
  column, both loaders raise \<open>IOError\<close> after the table has been stored: the construction
  fails and the table read from the file stays cached.
\<close>

theorem load_data_counterexample:
  "raised_class (init_app empty_file_env ''sales_data.csv'') = Some CIOError \<and>
   raised_class (init headless_env ''sales_data.csv'') = Some CIOError \<and>
   data (snd (init headless_env ''sales_data.csv'')) = Some headless_file \<and>
   raised_class (init_app headless_env ''sales_data.csv'') = Some CIOError \<and>
   data (snd (init_app headless_env ''sales_data.csv'')) = Some headless_file \<and>
   fst (init headless_env ''sales_data.csv'') =
     Inl (IOError (''An unexpected error occurred while reading the file sales_data.csv: ''
                   @ [CHR 0x27] @ ''branch_id'' @ [CHR 0x27]))"
  by (simp add: raised_class_def init_def init_app_def load_data_def load_data_app_def
      empty_file_env_def headless_env_def headless_file_def sample_env_def)

section \<open>Group totals\<close>






















lemma reversing_descending_ok:
  "mset (reversing_descending xs) = mset xs"
  "sorted_wrt (\<lambda>a b. snd a \<ge> snd b) (reversing_descending xs)"
proof -
  show "mset (reversing_descending xs) = mset xs"
    by (simp add: reversing_descending_def)
  have "sorted (map snd (sort_key snd xs))"
    by simp
  then have "sorted_wrt (\<lambda>a b. snd a \<le> snd b) (sort_key snd xs)"
    by (simp add: sorted_wrt_map)
  then show "sorted_wrt (\<lambda>a b. snd a \<ge> snd b) (reversing_descending xs)"
    by (simp add: reversing_descending_def sorted_wrt_rev)
qed



section \<open>The ranking of products\<close>


lemma reversing_env_sort_values: "sort_values_spec reversing_env"
  by (simp add: sort_values_spec_def reversing_env_def reversing_descending_ok)






section \<open>Summary statistics\<close>








lemma sample_std_spec_unique:
  "sample_std_spec xs s \<Longrightarrow> sample_std_spec xs s' \<Longrightarrow> s = s'"
proof (cases "length xs < 2")
  case True
  assume "sample_std_spec xs s" "sample_std_spec xs s'"
  with True show ?thesis by (simp add: sample_std_spec_def)
next
  case False
  assume a: "sample_std_spec xs s" "sample_std_spec xs s'"
  from False have n: "real (length xs) - 1 > 0" by simp
  from a(1) False obtain v where v: "s = Some v" "0 \<le> v"
    "v ^ 2 * (real (length xs) - 1) =
       sum_list (map (\<lambda>x. (x - sum_list xs / real (length xs)) ^ 2) xs)"
    by (auto simp: sample_std_spec_def)
  from a(2) False obtain w where w: "s' = Some w" "0 \<le> w"
    "w ^ 2 * (real (length xs) - 1) =
       sum_list (map (\<lambda>x. (x - sum_list xs / real (length xs)) ^ 2) xs)"
    by (auto simp: sample_std_spec_def)
  from v(3) w(3) have eq: "v ^ 2 * (real (length xs) - 1) = w ^ 2 * (real (length xs) - 1)"
    by simp
  from eq n have "v ^ 2 = w ^ 2" by simp
  with v(2) w(2) have "v = w" by (simp add: power2_eq_iff_nonneg)
  with v w show ?thesis by simp
qed








end
